theory Spec2Isabelle
  imports Main
begin

section \<open>JavaScript values used by the library\<close>

text \<open>
  The library is \<^verbatim>\<open>src/src/index.tsx\<close>. The file holds two variants of the module:
  lines 1-600 (functions suffixed \<open>_v1\<close> below) and lines 601-1073 (suffixed \<open>_v2\<close>).
  Functions whose bodies are the same in both variants (\<open>get\<close>, \<open>set\<close>, \<open>subscribe\<close>,
  \<open>reducer\<close>, \<open>openMIDIInput\<close>) are modelled once.

  MIDI numbers (channel, controller, pitch, value) are JavaScript numbers holding
  integers; they are modelled as \<open>int\<close>, and a property that may be \<^verbatim>\<open>undefined\<close>
  as \<open>int option\<close>. Objects that are compared by identity (device handles, callbacks)
  are references into a heap.
\<close>

type_synonym ref = nat

datatype error =
    Error string \<comment> \<open>\<^verbatim>\<open>throw new Error(message)\<close>; the interpolated tail of the message is left out\<close>
  | TypeError \<comment> \<open>raised by the language: reading a property of undefined, calling a
      missing method, spreading a value that is not iterable\<close>
  | DeviceError \<comment> \<open>whatever a platform capability (send, open) raised\<close>

definition truthy :: "int option \<Rightarrow> bool" where
  \<comment> \<open>\<^verbatim>\<open>undefined\<close> and \<^verbatim>\<open>0\<close> are falsy, every other integer is truthy\<close>
  "truthy a = (case a of None \<Rightarrow> False | Some x \<Rightarrow> x \<noteq> 0)"

definition js_or :: "int option \<Rightarrow> int \<Rightarrow> int" where
  \<comment> \<open>\<^verbatim>\<open>a || b\<close>\<close>
  "js_or a b = (case a of None \<Rightarrow> b | Some x \<Rightarrow> if x = 0 then b else x)"

definition nullish :: "'a option \<Rightarrow> 'a \<Rightarrow> 'a" where
  \<comment> \<open>\<^verbatim>\<open>a ?? b\<close>\<close>
  "nullish a b = (case a of None \<Rightarrow> b | Some x \<Rightarrow> x)"

section \<open>Status-byte table\<close>

definition translateTypeToStatusByte_v1 :: "string \<Rightarrow> int" where
  \<comment> \<open>lines 20-32. The case \<^verbatim>\<open>'afterTouch'\<close> is the expression statement \<^verbatim>\<open>0xA0;\<close> with
      no \<^verbatim>\<open>return\<close>, so control falls through into the case \<^verbatim>\<open>'cc'\<close>.\<close>
  "translateTypeToStatusByte_v1 t =
     (if t = ''noteOff'' then 0x80
      else if t = ''noteOn'' then 0x90
      else if t = ''afterTouch'' \<or> t = ''cc'' then 0xB0
      else if t = ''controlChange'' then 0xB0
      else if t = ''programChange'' then 0xC0
      else if t = ''channelPressure'' then 0xD0
      else if t = ''pitchWheel'' then 0xE0
      else 0x00)"

definition translateTypeToStatusByte_v2 :: "string \<Rightarrow> int" where
  \<comment> \<open>lines 605-617\<close>
  "translateTypeToStatusByte_v2 t =
     (if t = ''noteOff'' then 0x80
      else if t = ''noteOn'' then 0x90
      else if t = ''afterTouch'' then 0xA0
      else if t = ''cc'' then 0xB0
      else if t = ''controlChange'' then 0xB0
      else if t = ''programChange'' then 0xC0
      else if t = ''channelPressure'' then 0xD0
      else if t = ''pitchWheel'' then 0xE0
      else 0x00)"

section \<open>Message encoder\<close>

record MIDIOutput =
  out_id :: string
  out_send_raises :: "int list \<Rightarrow> bool" \<comment> \<open>whether \<^verbatim>\<open>send(msg)\<close> raises on this message\<close>

datatype device_arg =
    Single ref \<comment> \<open>one output handle\<close>
  | Multiple "ref option list" \<comment> \<open>an array of handles, entries possibly \<^verbatim>\<open>undefined\<close>\<close>

record MIDICommand =
  cmd_channel :: "int option"
  cmd_cc :: "int option"
  cmd_value :: "int option"
  cmd_velocity :: "int option"
  cmd_pitch :: "int option"
  cmd_device :: "device_arg option"
  cmd_type :: "string option"
  cmd_log :: bool

datatype event =
    Send ref "int list" \<comment> \<open>\<^verbatim>\<open>device.send(msg)\<close> was called on the handle\<close>
  | Warn \<comment> \<open>\<^verbatim>\<open>console.warn(error)\<close>\<close>
  | Call ref \<comment> \<open>a callback function was invoked\<close>

datatype outcome =
    MessageSent "int list" \<comment> \<open>\<^verbatim>\<open>MIDI message successfully sent : ${msg}\<close>\<close>
  | MessagesSentMultiple "int list" \<comment> \<open>\<^verbatim>\<open>messages sent successfully to multiple outputs : ${msg}\<close>\<close>
  | AnErrorOccured \<comment> \<open>\<^verbatim>\<open>an error occured.\<close>\<close>
  | NoDeviceSpecified \<comment> \<open>\<^verbatim>\<open>No device specified\<close>\<close>

definition dataByte1 :: "MIDICommand \<Rightarrow> int" where
  \<comment> \<open>\<^verbatim>\<open>pitch || (cc || 0)\<close>\<close>
  "dataByte1 props = js_or (cmd_pitch props) (js_or (cmd_cc props) 0)"

definition dataByte2 :: "MIDICommand \<Rightarrow> int" where
  \<comment> \<open>\<^verbatim>\<open>value || 0\<close>\<close>
  "dataByte2 props = js_or (cmd_value props) 0"

definition encode :: "(string \<Rightarrow> int) \<Rightarrow> MIDICommand \<Rightarrow> int list" where
  \<comment> \<open>the constant \<^verbatim>\<open>msg\<close> of \<^verbatim>\<open>sendMIDIMessage\<close>; \<^verbatim>\<open>type\<close> defaults to \<^verbatim>\<open>'cc'\<close>\<close>
  "encode statusByte props =
     (let firstStatusByte = statusByte (nullish (cmd_type props) ''cc'');
          statusBytes = firstStatusByte + nullish (cmd_channel props) 0
      in [statusBytes, dataByte1 props, dataByte2 props])"

definition send_single :: "(ref \<Rightarrow> MIDIOutput) \<Rightarrow> bool \<Rightarrow> ref \<Rightarrow> int list \<Rightarrow> outcome \<times> event list" where
  \<comment> \<open>\<^verbatim>\<open>try { device.send(msg) } catch (error) { if (log) console.warn(error); return ... }\<close>\<close>
  "send_single outs log d msg =
     (if out_send_raises (outs d) msg
      then (AnErrorOccured, Send d msg # (if log then [Warn] else []))
      else (MessageSent msg, [Send d msg]))"

fun forEach_send :: "(ref \<Rightarrow> MIDIOutput) \<Rightarrow> int list \<Rightarrow> ref option list \<Rightarrow> bool \<times> event list" where
  \<comment> \<open>\<^verbatim>\<open>device.forEach((d) => d?.send(msg))\<close>: the flag says whether a send raised, which
      ends the loop\<close>
  "forEach_send outs msg [] = (False, [])"
| "forEach_send outs msg (None # ds) = forEach_send outs msg ds"
| "forEach_send outs msg (Some d # ds) =
     (if out_send_raises (outs d) msg then (True, [Send d msg])
      else (case forEach_send outs msg ds of (raised, ev) \<Rightarrow> (raised, Send d msg # ev)))"

definition sendMIDIMessage_v1 :: "(ref \<Rightarrow> MIDIOutput) \<Rightarrow> MIDICommand \<Rightarrow> (error + outcome) \<times> event list" where
  \<comment> \<open>lines 75-105; the array branch has no \<^verbatim>\<open>try\<close>, so a raising send propagates\<close>
  "sendMIDIMessage_v1 outs props =
     (let msg = encode translateTypeToStatusByte_v1 props in
      case cmd_device props of
        None \<Rightarrow> (Inr NoDeviceSpecified, [])
      | Some (Multiple ds) \<Rightarrow>
          (case forEach_send outs msg ds of
             (raised, ev) \<Rightarrow> (if raised then Inl DeviceError else Inr (MessagesSentMultiple msg), ev))
      | Some (Single d) \<Rightarrow>
          (case send_single outs (cmd_log props) d msg of (r, ev) \<Rightarrow> (Inr r, ev)))"

definition sendMIDIMessage_v2 :: "(ref \<Rightarrow> MIDIOutput) \<Rightarrow> MIDICommand \<Rightarrow> outcome \<times> event list" where
  \<comment> \<open>lines 630-654; an array has no \<^verbatim>\<open>send\<close> method, the TypeError is caught\<close>
  "sendMIDIMessage_v2 outs props =
     (let msg = encode translateTypeToStatusByte_v2 props in
      case cmd_device props of
        None \<Rightarrow> (NoDeviceSpecified, [])
      | Some (Multiple ds) \<Rightarrow> (AnErrorOccured, if cmd_log props then [Warn] else [])
      | Some (Single d) \<Rightarrow> send_single outs (cmd_log props) d msg)"

fun sent :: "event list \<Rightarrow> (ref \<times> int list) list" where
  \<comment> \<open>the messages handed to send capabilities, in order\<close>
  "sent [] = []"
| "sent (Send d msg # ev) = (d, msg) # sent ev"
| "sent (e # ev) = sent ev"

section \<open>Value store\<close>

text \<open>
  \<^verbatim>\<open>useStoreData\<close> keeps \<^verbatim>\<open>store.current = { byDevice, byChannel }\<close>, two nested plain
  objects. A plain object is a finite map from keys to values; a missing key reads as
  \<^verbatim>\<open>undefined\<close> (\<open>None\<close>). Integer keys are turned into decimal strings, which is
  injective, so the integer is kept as the key.
\<close>

type_synonym ccmap = "int \<rightharpoonup> int"
type_synonym chmap = "int \<rightharpoonup> ccmap"

record store =
  byChannel :: chmap
  byDevice :: "string \<rightharpoonup> chmap"

definition initial_store :: store where
  \<comment> \<open>\<^verbatim>\<open>useRef({ byDevice: {}, byChannel: {} })\<close>\<close>
  "initial_store = \<lparr>byChannel = Map.empty, byDevice = Map.empty\<rparr>"

record store_write =
  w_channel :: int
  w_cc :: int
  w_value :: int
  w_device_id :: string \<comment> \<open>\<^verbatim>\<open>value.device.id\<close>, the only property of the device that is read\<close>

definition obj_spread :: "('k \<rightharpoonup> 'v) option \<Rightarrow> ('k \<rightharpoonup> 'v)" where
  \<comment> \<open>\<^verbatim>\<open>{...x}\<close>: spreading \<^verbatim>\<open>undefined\<close> into an object literal adds nothing\<close>
  "obj_spread x = (case x of None \<Rightarrow> Map.empty | Some m \<Rightarrow> m)"

definition opt_chain :: "('k \<rightharpoonup> 'v) option \<Rightarrow> 'k \<Rightarrow> 'v option" where
  \<comment> \<open>\<^verbatim>\<open>x?.[k]\<close>\<close>
  "opt_chain x k = (case x of None \<Rightarrow> None | Some m \<Rightarrow> m k)"

definition setMIDIValue :: "store \<Rightarrow> store_write \<Rightarrow> store" where
  \<comment> \<open>\<^verbatim>\<open>set\<close>, lines 221-241 and 724-744: one assignment to \<^verbatim>\<open>store.current\<close>\<close>
  "setMIDIValue s v =
     \<lparr>byChannel =
        (byChannel s)(w_channel v \<mapsto>
          (obj_spread (byChannel s (w_channel v)))(w_cc v \<mapsto> w_value v)),
      byDevice =
        (byDevice s)(w_device_id v \<mapsto>
          (obj_spread (byDevice s (w_device_id v)))(w_channel v \<mapsto>
            (obj_spread (opt_chain (byDevice s (w_device_id v)) (w_channel v)))(w_cc v \<mapsto> w_value v)))\<rparr>"

record get_props =
  q_channel :: "int option"
  q_cc :: "int option"
  q_device :: "string option" \<comment> \<open>the id of the device object of the query, if one is given\<close>

record store_record =
  \<comment> \<open>what the filter callback reads of an element: \<^verbatim>\<open>record.channel\<close>, \<^verbatim>\<open>record.cc\<close>\<close>
  r_channel :: "int option"
  r_cc :: "int option"

datatype get_result =
    Undefined
  | Number int
  | ChannelObject ccmap \<comment> \<open>\<^verbatim>\<open>store.current.byChannel[channel]\<close>\<close>
  | StoreObject store \<comment> \<open>\<^verbatim>\<open>store.current\<close>\<close>
  | Records "store_record list"

definition array_spread :: "chmap option \<Rightarrow> error + store_record list" where
  \<comment> \<open>\<^verbatim>\<open>[...x]\<close> for \<^verbatim>\<open>x = store.current.byDevice[device.id]\<close>: array spread needs an
      iterable. \<^verbatim>\<open>x\<close> is \<^verbatim>\<open>undefined\<close> or a plain object written by \<^verbatim>\<open>set\<close>; neither is
      iterable, so the spread raises a TypeError.\<close>
  "array_spread x = (case x of None \<Rightarrow> Inl TypeError | Some m \<Rightarrow> Inl TypeError)"

definition record_filter :: "int option \<Rightarrow> int option \<Rightarrow> store_record \<Rightarrow> bool" where
  \<comment> \<open>the callback given to \<^verbatim>\<open>filter\<close>, lines 211-215\<close>
  "record_filter channel cc r =
     (if truthy channel \<and> r_channel r \<noteq> channel then False
      else if truthy cc \<and> r_cc r \<noteq> cc then False
      else True)"

definition prop_get :: "('k \<rightharpoonup> 'v) \<Rightarrow> 'k option \<Rightarrow> 'v option" where
  \<comment> \<open>\<^verbatim>\<open>obj[k]\<close> on an object with integer keys: the key \<^verbatim>\<open>undefined\<close> names no entry\<close>
  "prop_get m k = (case k of None \<Rightarrow> None | Some k' \<Rightarrow> m k')"

definition getMIDIValue :: "store \<Rightarrow> get_props option \<Rightarrow> error + get_result" where
  \<comment> \<open>\<^verbatim>\<open>get\<close>, lines 207-220 and 710-723\<close>
  "getMIDIValue s props =
     (case props of
        None \<Rightarrow> Inr (StoreObject s)
      | Some p \<Rightarrow>
          (case q_device p of
             Some device_id \<Rightarrow>
               (case array_spread (byDevice s device_id) of
                  Inl e \<Rightarrow> Inl e
                | Inr records \<Rightarrow> Inr (Records (filter (record_filter (q_channel p) (q_cc p)) records)))
           | None \<Rightarrow>
               if \<not> truthy (q_channel p) then Inr (StoreObject s)
               else if \<not> truthy (q_cc p) then
                 (case prop_get (byChannel s) (q_channel p) of
                    None \<Rightarrow> Inr Undefined
                  | Some m \<Rightarrow> Inr (ChannelObject m))
               else
                 (case prop_get (byChannel s) (q_channel p) of
                    None \<Rightarrow> Inl TypeError
                  | Some m \<Rightarrow>
                      (case prop_get m (q_cc p) of None \<Rightarrow> Inr Undefined | Some x \<Rightarrow> Inr (Number x)))))"

subsection \<open>Subscribers\<close>

text \<open>
  A JavaScript \<^verbatim>\<open>Set\<close> keeps its elements in insertion order and compares objects by
  identity: it is a duplicate-free list of references.
\<close>

definition Set_add :: "'a list \<Rightarrow> 'a \<Rightarrow> 'a list" where
  "Set_add xs x = (if x \<in> set xs then xs else xs @ [x])"

definition Set_delete :: "'a list \<Rightarrow> 'a \<Rightarrow> bool \<times> 'a list" where
  \<comment> \<open>\<^verbatim>\<open>delete\<close> returns whether the element was present\<close>
  "Set_delete xs x = (x \<in> set xs, removeAll x xs)"

definition new_Set :: "'a list \<Rightarrow> 'a list" where
  \<comment> \<open>\<^verbatim>\<open>new Set(iterable)\<close>: the elements are added one after the other\<close>
  "new_Set xs = foldl Set_add [] xs"

record store_data =
  current :: store \<comment> \<open>\<^verbatim>\<open>store.current\<close>\<close>
  subscribers :: "ref list" \<comment> \<open>\<^verbatim>\<open>subscribers.current\<close>, a Set of callbacks\<close>

definition initial_store_data :: store_data where
  "initial_store_data = \<lparr>current = initial_store, subscribers = new_Set []\<rparr>"

definition subscribe :: "ref \<Rightarrow> store_data \<Rightarrow> ref \<times> store_data" where
  \<comment> \<open>lines 244-247. The function returned closes over \<^verbatim>\<open>callback\<close>; it is represented by
      that callback, and calling it is \<open>unsubscribe\<close>.\<close>
  "subscribe callback sd = (callback, sd\<lparr>subscribers := Set_add (subscribers sd) callback\<rparr>)"

definition unsubscribe :: "ref \<Rightarrow> store_data \<Rightarrow> bool \<times> store_data" where
  \<comment> \<open>\<^verbatim>\<open>() => subscribers.current.delete(callback)\<close>\<close>
  "unsubscribe callback sd =
     (case Set_delete (subscribers sd) callback of
        (present, rest) \<Rightarrow> (present, sd\<lparr>subscribers := rest\<rparr>))"

datatype store_op =
    Get "get_props option"
  | SetValue store_write
  | Subscribe ref
  | Unsubscribe ref

fun store_step :: "store_op \<Rightarrow> store_data \<Rightarrow> store_data \<times> event list" where
  \<comment> \<open>one call of the store's interface: the state after it and the events it causes.
      None of the four bodies calls a function of the subscriber set.\<close>
  "store_step (Get props) sd = (sd, [])"
| "store_step (SetValue v) sd = (sd\<lparr>current := setMIDIValue (current sd) v\<rparr>, [])"
| "store_step (Subscribe cb) sd = (snd (subscribe cb sd), [])"
| "store_step (Unsubscribe cb) sd = (snd (unsubscribe cb sd), [])"

fun store_run :: "store_op list \<Rightarrow> store_data \<Rightarrow> store_data \<times> event list" where
  "store_run [] sd = (sd, [])"
| "store_run (op # ops) sd =
     (case store_step op sd of
        (sd', ev) \<Rightarrow> (case store_run ops sd' of (sd'', ev') \<Rightarrow> (sd'', ev @ ev')))"

section \<open>Message-send facades\<close>

text \<open>
  A facade returns nothing: it either raises (\<open>Some e\<close>) or completes (\<open>None\<close>). The
  result also holds the events caused and, for \<^verbatim>\<open>sendMIDICC\<close>, the value store after
  the call.
\<close>

definition device_id_of :: "(ref \<Rightarrow> MIDIOutput) \<Rightarrow> device_arg option \<Rightarrow> string" where
  \<comment> \<open>\<^verbatim>\<open>device.id\<close> as a property key; an array has no \<^verbatim>\<open>id\<close>, and the key \<^verbatim>\<open>undefined\<close>
      is the string of that name. The facades reach it with a device only.\<close>
  "device_id_of outs dev =
     (case dev of Some (Single d) \<Rightarrow> out_id (outs d) | Some (Multiple ds) \<Rightarrow> ''undefined''
      | None \<Rightarrow> ''undefined'')"

definition sendMIDICC_v1 :: "(ref \<Rightarrow> MIDIOutput) \<Rightarrow> store \<Rightarrow> MIDICommand \<Rightarrow> error option \<times> event list \<times> store" where
  \<comment> \<open>lines 369-383: presence is tested by truthiness\<close>
  "sendMIDICC_v1 outs s args =
     (if \<not> truthy (cmd_channel args) then (Some (Error ''no channel provided for cc.''), [], s)
      else if \<not> truthy (cmd_cc args) then (Some (Error ''no cc# provided for cc.''), [], s)
      else if cmd_device args = None then (Some (Error ''no device provided for cc.''), [], s)
      else if \<not> truthy (cmd_value args) then (Some (Error ''no value provided for noteOn.''), [], s)
      else
        (case sendMIDIMessage_v1 outs
                \<lparr>cmd_channel = cmd_channel args, cmd_cc = cmd_cc args, cmd_value = cmd_value args,
                 cmd_velocity = None, cmd_pitch = None, cmd_device = cmd_device args,
                 cmd_type = Some ''cc'', cmd_log = False\<rparr> of
           (Inl e, ev) \<Rightarrow> (Some e, ev, s)
         | (Inr r, ev) \<Rightarrow>
             (None, ev,
              setMIDIValue s
                \<lparr>w_channel = nullish (cmd_channel args) 0, w_cc = nullish (cmd_cc args) 0,
                 w_value = nullish (cmd_value args) 0,
                 w_device_id = device_id_of outs (cmd_device args)\<rparr>)))"

definition sendMIDICC_v2 :: "(ref \<Rightarrow> MIDIOutput) \<Rightarrow> store \<Rightarrow> MIDICommand \<Rightarrow> error option \<times> event list \<times> store" where
  \<comment> \<open>lines 837-851: \<^verbatim>\<open>typeof(x) !== 'number'\<close> holds exactly when \<^verbatim>\<open>x\<close> is missing\<close>
  "sendMIDICC_v2 outs s args =
     (if cmd_channel args = None then (Some (Error ''no channel provided for cc.''), [], s)
      else if cmd_cc args = None then (Some (Error ''no cc# provided for cc.''), [], s)
      else if cmd_value args = None then (Some (Error ''no value provided for cc.''), [], s)
      else if cmd_device args = None then (Some (Error ''no device provided for cc.''), [], s)
      else
        (case sendMIDIMessage_v2 outs
                \<lparr>cmd_channel = cmd_channel args, cmd_cc = cmd_cc args, cmd_value = cmd_value args,
                 cmd_velocity = None, cmd_pitch = None, cmd_device = cmd_device args,
                 cmd_type = Some ''cc'', cmd_log = False\<rparr> of
           (r, ev) \<Rightarrow>
             (None, ev,
              setMIDIValue s
                \<lparr>w_channel = nullish (cmd_channel args) 0, w_cc = nullish (cmd_cc args) 0,
                 w_value = nullish (cmd_value args) 0,
                 w_device_id = device_id_of outs (cmd_device args)\<rparr>)))"

definition nullish_opt :: "'a option \<Rightarrow> 'a option \<Rightarrow> 'a option" where
  \<comment> \<open>\<^verbatim>\<open>a ?? b\<close> where \<^verbatim>\<open>b\<close> itself may be \<^verbatim>\<open>undefined\<close>\<close>
  "nullish_opt a b = (case a of None \<Rightarrow> b | Some x \<Rightarrow> Some x)"

definition sendMIDINoteOn_v1 :: "(ref \<Rightarrow> MIDIOutput) \<Rightarrow> MIDICommand \<Rightarrow> error option \<times> event list" where
  \<comment> \<open>lines 394-405\<close>
  "sendMIDINoteOn_v1 outs args =
     (if \<not> truthy (cmd_channel args) then (Some (Error ''no channel provided for noteOn.''), [])
      else if \<not> truthy (cmd_pitch args) then (Some (Error ''no pitch provided for noteOn.''), [])
      else if cmd_device args = None then (Some (Error ''no device provided for noteOn.''), [])
      else if \<not> (truthy (cmd_velocity args) \<or> truthy (cmd_value args))
        then (Some (Error ''no value/velocity provided for noteOn.''), [])
      else
        (case sendMIDIMessage_v1 outs
                \<lparr>cmd_channel = cmd_channel args, cmd_cc = None,
                 cmd_value = nullish_opt (cmd_value args) (cmd_velocity args),
                 cmd_velocity = None, cmd_pitch = cmd_pitch args, cmd_device = cmd_device args,
                 cmd_type = Some ''noteOn'', cmd_log = False\<rparr> of
           (Inl e, ev) \<Rightarrow> (Some e, ev)
         | (Inr r, ev) \<Rightarrow> (None, ev)))"

definition sendMIDINoteOn_v2 :: "(ref \<Rightarrow> MIDIOutput) \<Rightarrow> MIDICommand \<Rightarrow> error option \<times> event list" where
  \<comment> \<open>lines 853-864\<close>
  "sendMIDINoteOn_v2 outs args =
     (if cmd_channel args = None then (Some (Error ''no channel provided for noteOn.''), [])
      else if cmd_pitch args = None then (Some (Error ''no pitch provided for noteOn.''), [])
      else if cmd_velocity args = None \<and> cmd_value args = None
        then (Some (Error ''no value/velocity provided for noteOn.''), [])
      else if cmd_device args = None then (Some (Error ''no device provided for noteOn.''), [])
      else
        (case sendMIDIMessage_v2 outs
                \<lparr>cmd_channel = cmd_channel args, cmd_cc = None,
                 cmd_value = nullish_opt (cmd_value args) (cmd_velocity args),
                 cmd_velocity = None, cmd_pitch = cmd_pitch args, cmd_device = cmd_device args,
                 cmd_type = Some ''noteOn'', cmd_log = False\<rparr> of
           (r, ev) \<Rightarrow> (None, ev)))"

definition sendMIDINoteOff_v1 :: "(ref \<Rightarrow> MIDIOutput) \<Rightarrow> MIDICommand \<Rightarrow> error option \<times> event list" where
  \<comment> \<open>lines 413-423\<close>
  "sendMIDINoteOff_v1 outs args =
     (if \<not> truthy (cmd_channel args) then (Some (Error ''no channel provided for noteOff.''), [])
      else if \<not> truthy (cmd_pitch args) then (Some (Error ''no pitch provided for noteOff.''), [])
      else if cmd_device args = None then (Some (Error ''no device provided for noteOff.''), [])
      else
        (case sendMIDIMessage_v1 outs
                \<lparr>cmd_channel = cmd_channel args, cmd_cc = None, cmd_value = Some 0,
                 cmd_velocity = None, cmd_pitch = cmd_pitch args, cmd_device = cmd_device args,
                 cmd_type = Some ''noteOff'', cmd_log = False\<rparr> of
           (Inl e, ev) \<Rightarrow> (Some e, ev)
         | (Inr r, ev) \<Rightarrow> (None, ev)))"

definition sendMIDINoteOff_v2 :: "(ref \<Rightarrow> MIDIOutput) \<Rightarrow> MIDICommand \<Rightarrow> error option \<times> event list" where
  \<comment> \<open>lines 866-876\<close>
  "sendMIDINoteOff_v2 outs args =
     (if cmd_channel args = None then (Some (Error ''no channel provided for noteOff.''), [])
      else if cmd_pitch args = None then (Some (Error ''no pitch provided for noteOff.''), [])
      else if cmd_device args = None then (Some (Error ''no device provided for noteOff.''), [])
      else
        (case sendMIDIMessage_v2 outs
                \<lparr>cmd_channel = cmd_channel args, cmd_cc = None, cmd_value = Some 0,
                 cmd_velocity = None, cmd_pitch = cmd_pitch args, cmd_device = cmd_device args,
                 cmd_type = Some ''noteOff'', cmd_log = False\<rparr> of
           (r, ev) \<Rightarrow> (None, ev)))"

section \<open>Device registries\<close>

record action =
  act_type :: string
  act_value :: ref \<comment> \<open>the device handle, an object reference\<close>

definition reducer :: "(ref \<Rightarrow> string) \<Rightarrow> ref list \<Rightarrow> action \<Rightarrow> error + ref list" where
  \<comment> \<open>lines 260-269 and 764-773; \<open>ids\<close> reads the \<^verbatim>\<open>id\<close> property of a handle\<close>
  "reducer ids state act =
     (if act_type act = ''add'' then Inr (new_Set (state @ [act_value act]))
      else if act_type act = ''remove''
        then Inr (filter (\<lambda>item. \<not> (ids (act_value act) = ids item)) state)
      else Inl (Error []))"

definition add_action :: "ref \<Rightarrow> action" where
  \<comment> \<open>\<^verbatim>\<open>{ type: 'add', value: input }\<close>\<close>
  "add_action r = \<lparr>act_type = ''add'', act_value = r\<rparr>"

definition dispatch :: "(ref \<Rightarrow> string) \<Rightarrow> ref list \<Rightarrow> action \<Rightarrow> ref list" where
  \<comment> \<open>\<^verbatim>\<open>useReducer\<close>: the state becomes the reducer's result. The registry functions
      dispatch \<^verbatim>\<open>add\<close> and \<^verbatim>\<open>remove\<close> only, which the reducer never rejects.\<close>
  "dispatch ids state act = (case reducer ids state act of Inl e \<Rightarrow> state | Inr state' \<Rightarrow> state')"

section \<open>Opening inputs\<close>

datatype capability =
    Missing \<comment> \<open>the handle has no such method: calling it raises a TypeError\<close>
  | Resolves \<comment> \<open>the method returns a promise that resolves\<close>
  | Rejects \<comment> \<open>the method returns a promise that rejects\<close>

datatype handler =
    Default \<comment> \<open>\<^verbatim>\<open>(msg) => onMIDIMessage(msg)\<close>\<close>
  | Wrapped ref \<comment> \<open>\<^verbatim>\<open>(msg) => cb(msg)\<close>, which calls the caller's callback\<close>

record MIDIInput =
  in_id :: string
  in_connection :: string
  in_onmidimessage :: "handler option"
  in_open :: capability
  in_close :: capability

datatype 'a promise = Resolved 'a | Rejected error

datatype opened =
    NoInputSupplied \<comment> \<open>the value \<^verbatim>\<open>new Error('No input supplied')\<close>, returned, not raised\<close>
  | Input ref

definition openMIDIInput :: "(ref \<Rightarrow> MIDIInput) \<Rightarrow> ref option \<Rightarrow> ref option \<Rightarrow> opened promise \<times> (ref \<Rightarrow> MIDIInput)" where
  \<comment> \<open>lines 129-144 and 669-684. The input \<open>None\<close> is a value that is not an object. A
      resolving \<^verbatim>\<open>open()\<close> leaves the port's connection \<^verbatim>\<open>open\<close> (the platform's doing).\<close>
  "openMIDIInput heap input callback =
     (case input of
        None \<Rightarrow> (Resolved NoInputSupplied, heap)
      | Some r \<Rightarrow>
          if in_connection (heap r) = ''open'' \<and> callback = None then (Resolved (Input r), heap)
          else
            (let h = (case callback of None \<Rightarrow> Default | Some c \<Rightarrow> Wrapped c);
                 heap1 = heap(r := (heap r)\<lparr>in_onmidimessage := Some h\<rparr>)
             in case in_open (heap r) of
                  Missing \<Rightarrow> (Rejected TypeError, heap1)
                | Rejects \<Rightarrow> (Rejected DeviceError, heap1)
                | Resolves \<Rightarrow> (Resolved (Input r), heap1(r := (heap1 r)\<lparr>in_connection := ''open''\<rparr>))))"

definition addMIDIInput_v1 :: "bool \<Rightarrow> (ref \<Rightarrow> MIDIInput) \<Rightarrow> ref list \<Rightarrow> ref \<Rightarrow> ref option \<Rightarrow> (error + bool) \<times> (ref \<Rightarrow> MIDIInput) \<times> ref list" where
  \<comment> \<open>lines 306-315; \<open>access\<close> says whether \<^verbatim>\<open>'inputs' in midiAccess\<close>. The promise of
      \<^verbatim>\<open>openMIDIInput\<close> is dropped: its rejection is raised nowhere in this function.\<close>
  "addMIDIInput_v1 access heap connected input callback =
     (if \<not> access then (Inr False, heap, connected)
      else
        (case openMIDIInput heap (Some input) callback of
           (p, heap') \<Rightarrow>
             (Inr True, heap', dispatch (\<lambda>r. in_id (heap' r)) connected (add_action input))))"

definition addMIDIInput_v2 :: "bool \<Rightarrow> (ref \<Rightarrow> MIDIInput) \<Rightarrow> ref list \<Rightarrow> ref \<Rightarrow> ref option \<Rightarrow> bool promise \<times> (ref \<Rightarrow> MIDIInput) \<times> ref list" where
  \<comment> \<open>lines 797-806; \<open>access\<close> says whether \<^verbatim>\<open>midiAccess\<close> is set and has \<^verbatim>\<open>inputs\<close>. The
      promise of \<^verbatim>\<open>openMIDIInput\<close> is awaited: its rejection is raised inside the \<^verbatim>\<open>try\<close>.\<close>
  "addMIDIInput_v2 access heap connected input callback =
     (if \<not> access then (Resolved False, heap, connected)
      else
        (case openMIDIInput heap (Some input) callback of
           (Rejected e, heap') \<Rightarrow> (Resolved False, heap', connected)
         | (Resolved v, heap') \<Rightarrow>
             (Resolved True, heap', dispatch (\<lambda>r. in_id (heap' r)) connected (add_action input))))"

definition handle_midimessage :: "handler option \<Rightarrow> event list" where
  \<comment> \<open>what the installed \<^verbatim>\<open>onmidimessage\<close> handler does when the platform delivers a message
      (lines 133-141): the default handler only formats the message, the wrapped one calls
      the caller's callback\<close>
  "handle_midimessage h =
     (case h of None \<Rightarrow> [] | Some Default \<Rightarrow> [] | Some (Wrapped callback) \<Rightarrow> [Call callback])"

section \<open>Observations used in the statements\<close>

definition lookup_byChannel :: "store \<Rightarrow> int \<Rightarrow> int \<Rightarrow> int option" where
  \<comment> \<open>the entry of the channel index for a pair: \<^verbatim>\<open>byChannel[ch]?.[cc]\<close>\<close>
  "lookup_byChannel s ch cc = opt_chain (byChannel s ch) cc"

definition lookup_byDevice :: "store \<Rightarrow> string \<Rightarrow> int \<Rightarrow> int \<Rightarrow> int option" where
  \<comment> \<open>the entry of the device index for a triple: \<^verbatim>\<open>byDevice[id]?.[ch]?.[cc]\<close>\<close>
  "lookup_byDevice s dev ch cc = opt_chain (opt_chain (byDevice s dev) ch) cc"

definition apply_writes :: "store \<Rightarrow> store_write list \<Rightarrow> store" where
  \<comment> \<open>a sequence of calls of \<^verbatim>\<open>set\<close>\<close>
  "apply_writes s ws = foldl setMIDIValue s ws"

definition last_write :: "(store_write \<Rightarrow> bool) \<Rightarrow> store_write list \<Rightarrow> store_write option" where
  \<comment> \<open>the latest write of a history that satisfies \<open>P\<close>\<close>
  "last_write P ws = find P (rev ws)"

fun writes_of :: "store_op list \<Rightarrow> store_write list" where
  \<comment> \<open>the arguments of the calls of \<^verbatim>\<open>set\<close> among a sequence of store operations\<close>
  "writes_of [] = []"
| "writes_of (SetValue v # ops) = v # writes_of ops"
| "writes_of (op # ops) = writes_of ops"

definition entries_with_id :: "(ref \<Rightarrow> string) \<Rightarrow> ref list \<Rightarrow> string \<Rightarrow> ref list" where
  \<comment> \<open>the entries of a registry whose handle has the given id\<close>
  "entries_with_id ids state i = filter (\<lambda>r. ids r = i) state"

definition closed_input_without_open :: MIDIInput where
  \<comment> \<open>a closed port whose handle has no \<^verbatim>\<open>open\<close> method\<close>
  "closed_input_without_open =
     \<lparr>in_id = ''in1'', in_connection = ''closed'', in_onmidimessage = None,
      in_open = Missing, in_close = Missing\<rparr>"

definition open_input_without_open :: MIDIInput where
  \<comment> \<open>a handle with no \<^verbatim>\<open>open\<close> method whose connection already reads \<^verbatim>\<open>open\<close>\<close>
  "open_input_without_open =
     \<lparr>in_id = ''in1'', in_connection = ''open'', in_onmidimessage = None,
      in_open = Missing, in_close = Missing\<rparr>"

definition cc_command :: "int \<Rightarrow> int \<Rightarrow> int \<Rightarrow> ref \<Rightarrow> MIDICommand" where
  \<comment> \<open>\<^verbatim>\<open>{ channel, cc, value, device }\<close>\<close>
  "cc_command ch cc v d =
     \<lparr>cmd_channel = Some ch, cmd_cc = Some cc, cmd_value = Some v, cmd_velocity = None,
      cmd_pitch = None, cmd_device = Some (Single d), cmd_type = None, cmd_log = False\<rparr>"

definition noteOn_command :: "int \<Rightarrow> int \<Rightarrow> int \<Rightarrow> ref \<Rightarrow> MIDICommand" where
  \<comment> \<open>\<^verbatim>\<open>{ channel, pitch, velocity, device }\<close>\<close>
  "noteOn_command ch p vel d =
     \<lparr>cmd_channel = Some ch, cmd_cc = None, cmd_value = None, cmd_velocity = Some vel,
      cmd_pitch = Some p, cmd_device = Some (Single d), cmd_type = None, cmd_log = False\<rparr>"

definition noteOff_command :: "int \<Rightarrow> int \<Rightarrow> ref \<Rightarrow> MIDICommand" where
  \<comment> \<open>\<^verbatim>\<open>{ channel, pitch, device }\<close>\<close>
  "noteOff_command ch p d =
     \<lparr>cmd_channel = Some ch, cmd_cc = None, cmd_value = None, cmd_velocity = None,
      cmd_pitch = Some p, cmd_device = Some (Single d), cmd_type = None, cmd_log = False\<rparr>"

definition channel_query :: "int option \<Rightarrow> int option \<Rightarrow> get_props option" where
  \<comment> \<open>\<^verbatim>\<open>get({ channel, cc })\<close>, with no device\<close>
  "channel_query ch cc = Some \<lparr>q_channel = ch, q_cc = cc, q_device = None\<rparr>"

definition device_query :: "string \<Rightarrow> int option \<Rightarrow> int option \<Rightarrow> get_props option" where
  \<comment> \<open>\<^verbatim>\<open>get({ device: { id }, channel, cc })\<close>\<close>
  "device_query dev ch cc = Some \<lparr>q_channel = ch, q_cc = cc, q_device = Some dev\<rparr>"

section \<open>Status-byte table: properties\<close>

lemma translateTypeToStatusByte_v2_table:
  "translateTypeToStatusByte_v2 ''noteOff'' = 0x80"
  "translateTypeToStatusByte_v2 ''noteOn'' = 0x90"
  "translateTypeToStatusByte_v2 ''afterTouch'' = 0xA0"
  "translateTypeToStatusByte_v2 ''cc'' = 0xB0"
  "translateTypeToStatusByte_v2 ''controlChange'' = 0xB0"
  "translateTypeToStatusByte_v2 ''programChange'' = 0xC0"
  "translateTypeToStatusByte_v2 ''channelPressure'' = 0xD0"
  "translateTypeToStatusByte_v2 ''pitchWheel'' = 0xE0"
  by (simp_all add: translateTypeToStatusByte_v2_def)

lemma translateTypeToStatusByte_v2_default:
  "t \<notin> {''noteOff'', ''noteOn'', ''afterTouch'', ''cc'', ''controlChange'',
         ''programChange'', ''channelPressure'', ''pitchWheel''}
   \<Longrightarrow> translateTypeToStatusByte_v2 t = 0x00"
  by (simp add: translateTypeToStatusByte_v2_def)

lemma translateTypeToStatusByte_v1_table:
  "translateTypeToStatusByte_v1 ''noteOff'' = 0x80"
  "translateTypeToStatusByte_v1 ''noteOn'' = 0x90"
  "translateTypeToStatusByte_v1 ''cc'' = 0xB0"
  "translateTypeToStatusByte_v1 ''controlChange'' = 0xB0"
  "translateTypeToStatusByte_v1 ''programChange'' = 0xC0"
  "translateTypeToStatusByte_v1 ''channelPressure'' = 0xD0"
  "translateTypeToStatusByte_v1 ''pitchWheel'' = 0xE0"
  by (simp_all add: translateTypeToStatusByte_v1_def)

text \<open>
  C2. The table maps \<^verbatim>\<open>noteOff\<close>, \<^verbatim>\<open>noteOn\<close>, \<^verbatim>\<open>afterTouch\<close>, \<^verbatim>\<open>cc\<close>, \<^verbatim>\<open>controlChange\<close>,
  \<^verbatim>\<open>programChange\<close>, \<^verbatim>\<open>channelPressure\<close>, \<^verbatim>\<open>pitchWheel\<close> to 0x80, 0x90, 0xA0, 0xB0, 0xB0,
  0xC0, 0xD0, 0xE0 and every other string to 0x00. The variant of lines 605-617 does
  (\<open>translateTypeToStatusByte_v2_table\<close>, \<open>translateTypeToStatusByte_v2_default\<close>). The
  variant of lines 20-32 returns 0xB0 on \<^verbatim>\<open>afterTouch\<close>, not 0xA0: the case has no
  \<^verbatim>\<open>return\<close> and falls through to \<^verbatim>\<open>cc\<close>.
\<close>

theorem translateTypeToStatusByte_v1_afterTouch:
  "translateTypeToStatusByte_v1 ''afterTouch'' = 0xB0
   \<and> translateTypeToStatusByte_v1 ''afterTouch'' \<noteq> 0xA0
   \<and> translateTypeToStatusByte_v2 ''afterTouch'' = 0xA0"
  by (simp add: translateTypeToStatusByte_v1_def translateTypeToStatusByte_v2_def)

section \<open>Message encoder and facades: properties\<close>

lemma encode_device: "encode f (props\<lparr>cmd_device := dev\<rparr>) = encode f props"
  by (simp add: encode_def dataByte1_def dataByte2_def)

lemma sent_send_single: "sent (snd (send_single outs l d msg)) = [(d, msg)]"
  by (simp add: send_single_def)

lemma sendMIDICC_v2_value_zero:
  "fst (sendMIDICC_v2 outs s (cc_command ch cc 0 d)) = None"
  "sent (fst (snd (sendMIDICC_v2 outs s (cc_command ch cc 0 d)))) = [(d, [0xB0 + ch, cc, 0])]"
  "snd (snd (sendMIDICC_v2 outs s (cc_command ch cc 0 d)))
     = setMIDIValue s \<lparr>w_channel = ch, w_cc = cc, w_value = 0, w_device_id = out_id (outs d)\<rparr>"
  by (simp_all add: sendMIDICC_v2_def cc_command_def sendMIDIMessage_v2_def encode_def
      dataByte1_def dataByte2_def js_or_def nullish_def send_single_def
      translateTypeToStatusByte_v2_def device_id_of_def Let_def)

lemma sendMIDICC_v1_falsy_arguments:
  "fst (sendMIDICC_v1 outs s (cc_command 0 cc v d)) = Some (Error ''no channel provided for cc.'')"
  "ch \<noteq> 0 \<Longrightarrow>
   fst (sendMIDICC_v1 outs s (cc_command ch 0 v d)) = Some (Error ''no cc# provided for cc.'')"
  "ch \<noteq> 0 \<Longrightarrow> cc \<noteq> 0 \<Longrightarrow>
   fst (sendMIDICC_v1 outs s (cc_command ch cc 0 d)) = Some (Error ''no value provided for noteOn.'')"
  by (simp_all add: sendMIDICC_v1_def cc_command_def truthy_def)

text \<open>
  C1. \<^verbatim>\<open>sendMIDICC\<close> with value 0, a numeric channel and controller and a device present
  raises nothing and hands \<^verbatim>\<open>[0xB0 + channel, cc, 0]\<close> to the device's send capability;
  \<^verbatim>\<open>sendMIDICC({channel: 1, cc: 64, value: 0, device})\<close> encodes \<^verbatim>\<open>[0xB1, 64, 0]\<close>. The
  variant of lines 837-851 does, for every channel, controller and device
  (\<open>sendMIDICC_v2_value_zero\<close>). The variant of lines 369-383 tests the value by
  truthiness: on this call it raises, sends nothing and leaves the store as it was.
\<close>

theorem sendMIDICC_v1_rejects_value_zero:
  "sendMIDICC_v1 outs s (cc_command 1 64 0 d)
     = (Some (Error ''no value provided for noteOn.''), [], s)
   \<and> fst (sendMIDICC_v2 outs s (cc_command 1 64 0 d)) = None
   \<and> sent (fst (snd (sendMIDICC_v2 outs s (cc_command 1 64 0 d)))) = [(d, [0xB1, 64, 0])]"
  by (simp add: sendMIDICC_v1_def sendMIDICC_v2_def cc_command_def truthy_def
      sendMIDIMessage_v2_def encode_def dataByte1_def dataByte2_def js_or_def nullish_def
      send_single_def translateTypeToStatusByte_v2_def Let_def)

text \<open>
  C5. The encoder builds the three bytes \<^verbatim>\<open>[statusByte(type) + (channel ?? 0), data1, data2]\<close>,
  the type defaulting to \<^verbatim>\<open>cc\<close>; \<^verbatim>\<open>data1\<close> is 0 when neither a pitch nor a controller
  number is given, the controller number when only it is given, and a non-zero pitch when
  one is given; \<^verbatim>\<open>data2\<close> is 0 when no value is given and the value otherwise. Given a
  single device, both variants of \<^verbatim>\<open>sendMIDIMessage\<close> hand exactly that message to it.
  \<^verbatim>\<open>sendMIDINoteOn(channel=1, pitch=60, velocity=100, device)\<close> sends \<^verbatim>\<open>[0x91, 60, 100]\<close> and
  \<^verbatim>\<open>sendMIDINoteOff(channel=1, pitch=60, device)\<close> sends \<^verbatim>\<open>[0x81, 60, 0]\<close>, in both variants.
\<close>

theorem encoder_message:
  "encode f props
     = [f (nullish (cmd_type props) ''cc'') + nullish (cmd_channel props) 0,
        dataByte1 props, dataByte2 props]
   \<and> dataByte1 (props\<lparr>cmd_pitch := None, cmd_cc := None\<rparr>) = 0
   \<and> dataByte1 (props\<lparr>cmd_pitch := None, cmd_cc := Some c\<rparr>) = c
   \<and> dataByte1 (props\<lparr>cmd_pitch := Some p\<rparr>)
       = (if p = 0 then dataByte1 (props\<lparr>cmd_pitch := None\<rparr>) else p)
   \<and> dataByte2 (props\<lparr>cmd_value := None\<rparr>) = 0
   \<and> dataByte2 (props\<lparr>cmd_value := Some v\<rparr>) = v
   \<and> sent (snd (sendMIDIMessage_v1 outs (props\<lparr>cmd_device := Some (Single d)\<rparr>)))
       = [(d, encode translateTypeToStatusByte_v1 props)]
   \<and> sent (snd (sendMIDIMessage_v2 outs (props\<lparr>cmd_device := Some (Single d)\<rparr>)))
       = [(d, encode translateTypeToStatusByte_v2 props)]
   \<and> sendMIDIMessage_v1 outs (props\<lparr>cmd_device := None\<rparr>) = (Inr NoDeviceSpecified, [])
   \<and> sendMIDIMessage_v2 outs (props\<lparr>cmd_device := None\<rparr>) = (NoDeviceSpecified, [])
   \<and> fst (sendMIDINoteOn_v1 outs (noteOn_command 1 60 100 d)) = None
   \<and> sent (snd (sendMIDINoteOn_v1 outs (noteOn_command 1 60 100 d))) = [(d, [0x91, 60, 100])]
   \<and> fst (sendMIDINoteOn_v2 outs (noteOn_command 1 60 100 d)) = None
   \<and> sent (snd (sendMIDINoteOn_v2 outs (noteOn_command 1 60 100 d))) = [(d, [0x91, 60, 100])]
   \<and> fst (sendMIDINoteOff_v1 outs (noteOff_command 1 60 d)) = None
   \<and> sent (snd (sendMIDINoteOff_v1 outs (noteOff_command 1 60 d))) = [(d, [0x81, 60, 0])]
   \<and> fst (sendMIDINoteOff_v2 outs (noteOff_command 1 60 d)) = None
   \<and> sent (snd (sendMIDINoteOff_v2 outs (noteOff_command 1 60 d))) = [(d, [0x81, 60, 0])]"
proof -
  have enc: "encode f props
     = [f (nullish (cmd_type props) ''cc'') + nullish (cmd_channel props) 0,
        dataByte1 props, dataByte2 props]"
    by (simp add: encode_def Let_def)
  have d1: "dataByte1 (props\<lparr>cmd_pitch := None, cmd_cc := None\<rparr>) = 0"
    "dataByte1 (props\<lparr>cmd_pitch := None, cmd_cc := Some c\<rparr>) = c"
    "dataByte1 (props\<lparr>cmd_pitch := Some p\<rparr>)
       = (if p = 0 then dataByte1 (props\<lparr>cmd_pitch := None\<rparr>) else p)"
    by (simp_all add: dataByte1_def js_or_def)
  have d2: "dataByte2 (props\<lparr>cmd_value := None\<rparr>) = 0" "dataByte2 (props\<lparr>cmd_value := Some v\<rparr>) = v"
    by (simp_all add: dataByte2_def js_or_def)
  have m1: "sent (snd (sendMIDIMessage_v1 outs (props\<lparr>cmd_device := Some (Single d)\<rparr>)))
       = [(d, encode translateTypeToStatusByte_v1 props)]"
    by (simp add: sendMIDIMessage_v1_def Let_def sent_send_single encode_device case_prod_beta)
  have m2: "sent (snd (sendMIDIMessage_v2 outs (props\<lparr>cmd_device := Some (Single d)\<rparr>)))
       = [(d, encode translateTypeToStatusByte_v2 props)]"
    by (simp add: sendMIDIMessage_v2_def Let_def sent_send_single encode_device)
  have n: "sendMIDIMessage_v1 outs (props\<lparr>cmd_device := None\<rparr>) = (Inr NoDeviceSpecified, [])"
    "sendMIDIMessage_v2 outs (props\<lparr>cmd_device := None\<rparr>) = (NoDeviceSpecified, [])"
    by (simp_all add: sendMIDIMessage_v1_def sendMIDIMessage_v2_def Let_def)
  have on1: "fst (sendMIDINoteOn_v1 outs (noteOn_command 1 60 100 d)) = None"
    "sent (snd (sendMIDINoteOn_v1 outs (noteOn_command 1 60 100 d))) = [(d, [0x91, 60, 100])]"
    by (simp_all add: sendMIDINoteOn_v1_def noteOn_command_def sendMIDIMessage_v1_def truthy_def
        nullish_opt_def encode_def dataByte1_def dataByte2_def js_or_def nullish_def
        send_single_def translateTypeToStatusByte_v1_def Let_def)
  have on2: "fst (sendMIDINoteOn_v2 outs (noteOn_command 1 60 100 d)) = None"
    "sent (snd (sendMIDINoteOn_v2 outs (noteOn_command 1 60 100 d))) = [(d, [0x91, 60, 100])]"
    by (simp_all add: sendMIDINoteOn_v2_def noteOn_command_def sendMIDIMessage_v2_def
        nullish_opt_def encode_def dataByte1_def dataByte2_def js_or_def nullish_def
        send_single_def translateTypeToStatusByte_v2_def Let_def)
  have off1: "fst (sendMIDINoteOff_v1 outs (noteOff_command 1 60 d)) = None"
    "sent (snd (sendMIDINoteOff_v1 outs (noteOff_command 1 60 d))) = [(d, [0x81, 60, 0])]"
    by (simp_all add: sendMIDINoteOff_v1_def noteOff_command_def sendMIDIMessage_v1_def truthy_def
        encode_def dataByte1_def dataByte2_def js_or_def nullish_def send_single_def
        translateTypeToStatusByte_v1_def Let_def)
  have off2: "fst (sendMIDINoteOff_v2 outs (noteOff_command 1 60 d)) = None"
    "sent (snd (sendMIDINoteOff_v2 outs (noteOff_command 1 60 d))) = [(d, [0x81, 60, 0])]"
    by (simp_all add: sendMIDINoteOff_v2_def noteOff_command_def sendMIDIMessage_v2_def
        encode_def dataByte1_def dataByte2_def js_or_def nullish_def send_single_def
        translateTypeToStatusByte_v2_def Let_def)
  from enc d1 d2 m1 m2 n on1 on2 off1 off2 show ?thesis by blast
qed

section \<open>Value store: properties\<close>

lemma lookup_byChannel_set:
  "lookup_byChannel (setMIDIValue s w) ch cc =
     (if ch = w_channel w \<and> cc = w_cc w then Some (w_value w) else lookup_byChannel s ch cc)"
  by (simp add: lookup_byChannel_def setMIDIValue_def opt_chain_def obj_spread_def
      split: option.splits)

lemma lookup_byDevice_set:
  "lookup_byDevice (setMIDIValue s w) dev ch cc =
     (if dev = w_device_id w \<and> ch = w_channel w \<and> cc = w_cc w then Some (w_value w)
      else lookup_byDevice s dev ch cc)"
  by (auto simp add: lookup_byDevice_def setMIDIValue_def opt_chain_def obj_spread_def
      split: option.splits)

lemma apply_writes_snoc: "apply_writes s (ws @ [w]) = setMIDIValue (apply_writes s ws) w"
  by (simp add: apply_writes_def)

lemma apply_writes_Cons: "apply_writes s (w # ws) = apply_writes (setMIDIValue s w) ws"
  by (simp add: apply_writes_def)

lemma last_write_snoc: "last_write P (ws @ [w]) = (if P w then Some w else last_write P ws)"
  by (simp add: last_write_def)

lemma lookup_initial:
  "lookup_byChannel initial_store ch cc = None"
  "lookup_byDevice initial_store dev ch cc = None"
  by (simp_all add: lookup_byChannel_def lookup_byDevice_def initial_store_def opt_chain_def)

lemma byChannel_history:
  "lookup_byChannel (apply_writes initial_store ws) ch cc =
     map_option w_value (last_write (\<lambda>w. w_channel w = ch \<and> w_cc w = cc) ws)"
proof (induction ws rule: rev_induct)
  case Nil
  show ?case by (simp add: apply_writes_def last_write_def lookup_initial)
next
  case (snoc w ws)
  then show ?case
    by (simp add: apply_writes_snoc last_write_snoc lookup_byChannel_set)
qed

lemma byDevice_history:
  "lookup_byDevice (apply_writes initial_store ws) dev ch cc =
     map_option w_value
       (last_write (\<lambda>w. w_device_id w = dev \<and> w_channel w = ch \<and> w_cc w = cc) ws)"
proof (induction ws rule: rev_induct)
  case Nil
  show ?case by (simp add: apply_writes_def last_write_def lookup_initial)
next
  case (snoc w ws)
  then show ?case
    by (simp add: apply_writes_snoc last_write_snoc lookup_byDevice_set)
qed

lemma indexes_agree:
  "lookup_byChannel (apply_writes initial_store ws) ch cc =
     (case last_write (\<lambda>w. w_channel w = ch \<and> w_cc w = cc) ws of
        None \<Rightarrow> None
      | Some w \<Rightarrow> lookup_byDevice (apply_writes initial_store ws) (w_device_id w) ch cc)"
proof (induction ws rule: rev_induct)
  case Nil
  show ?case by (simp add: apply_writes_def last_write_def lookup_initial)
next
  case (snoc w ws)
  then show ?case
    by (simp add: apply_writes_snoc last_write_snoc lookup_byChannel_set lookup_byDevice_set
        byChannel_history split: option.splits)
qed

lemma store_run_current:
  "current (fst (store_run ops sd)) = apply_writes (current sd) (writes_of ops)"
proof (induction ops arbitrary: sd)
  case Nil
  show ?case by (simp add: apply_writes_def)
next
  case (Cons op ops)
  show ?case
  proof (cases op)
    case (Get x)
    then show ?thesis using Cons [of sd] by (simp add: case_prod_beta)
  next
    case (SetValue v)
    then show ?thesis
      using Cons [of "sd\<lparr>current := setMIDIValue (current sd) v\<rparr>"]
      by (simp add: case_prod_beta apply_writes_Cons)
  next
    case (Subscribe cb)
    then show ?thesis
      using Cons [of "snd (subscribe cb sd)"] by (simp add: case_prod_beta subscribe_def)
  next
    case (Unsubscribe cb)
    then show ?thesis
      using Cons [of "snd (unsubscribe cb sd)"]
      by (simp add: case_prod_beta unsubscribe_def)
  qed
qed

text \<open>
  C4. After an update with (deviceId, channel, cc, value) the channel index at
  (channel, cc) and the device index at (deviceId, channel, cc) both hold the value.
  In every state reached from the empty store by calls of the store's interface, each
  index holds at a key the value of the latest write to that key and nothing at a key
  never written, so the channel index is last-writer-wins across devices, and its entry
  at (channel, cc) is the device index's entry for the device that wrote
  (channel, cc) last: no state has one index written without the other.
\<close>

theorem value_store_indexes_agree:
  "lookup_byChannel (setMIDIValue s w) (w_channel w) (w_cc w) = Some (w_value w)
   \<and> lookup_byDevice (setMIDIValue s w) (w_device_id w) (w_channel w) (w_cc w) = Some (w_value w)
   \<and> lookup_byChannel (current (fst (store_run ops initial_store_data))) ch cc
       = map_option w_value (last_write (\<lambda>w. w_channel w = ch \<and> w_cc w = cc) (writes_of ops))
   \<and> lookup_byDevice (current (fst (store_run ops initial_store_data))) dev ch cc
       = map_option w_value
           (last_write (\<lambda>w. w_device_id w = dev \<and> w_channel w = ch \<and> w_cc w = cc) (writes_of ops))
   \<and> lookup_byChannel (current (fst (store_run ops initial_store_data))) ch cc
       = (case last_write (\<lambda>w. w_channel w = ch \<and> w_cc w = cc) (writes_of ops) of
            None \<Rightarrow> None
          | Some w' \<Rightarrow>
              lookup_byDevice (current (fst (store_run ops initial_store_data)))
                (w_device_id w') ch cc)"
proof -
  have cur: "current (fst (store_run ops initial_store_data))
      = apply_writes initial_store (writes_of ops)"
    by (simp add: store_run_current initial_store_data_def)
  show ?thesis
    unfolding cur
    using indexes_agree [of "writes_of ops" ch cc]
    by (simp add: lookup_byChannel_set lookup_byDevice_set byChannel_history byDevice_history)
qed

lemma getMIDIValue_device_raises:
  "getMIDIValue s (device_query dev ch cc) = Inl TypeError"
  by (simp add: getMIDIValue_def device_query_def array_spread_def split: option.splits)

lemma get_after_set_channel_query:
  "ch \<noteq> 0 \<Longrightarrow> cc \<noteq> 0 \<Longrightarrow>
   getMIDIValue (setMIDIValue s \<lparr>w_channel = ch, w_cc = cc, w_value = v, w_device_id = dev\<rparr>)
     (channel_query (Some ch) (Some cc)) = Inr (Number v)"
  by (simp add: getMIDIValue_def channel_query_def truthy_def prop_get_def setMIDIValue_def)

text \<open>
  C3. After \<^verbatim>\<open>set({device: {id: deviceId}, channel: ch, cc: cc, value: v})\<close>,
  \<^verbatim>\<open>get({channel: ch, cc: cc})\<close> returns \<open>v\<close> and \<^verbatim>\<open>get({device: {id: deviceId}, channel: ch})\<close>
  includes the record of \<open>cc\<close> and \<open>v\<close>. The code returns \<open>v\<close> to the first query when
  \<open>ch\<close> and \<open>cc\<close> are not 0 (\<open>get_after_set_channel_query\<close>). The device query raises a
  TypeError instead, on every store (\<open>getMIDIValue_device_raises\<close>): it spreads the
  plain object written by \<^verbatim>\<open>set\<close> into an array. With channel 0 the first query returns
  the whole store.
\<close>

theorem get_after_set_device_query:
  "getMIDIValue
     (setMIDIValue initial_store
        \<lparr>w_channel = 1, w_cc = 64, w_value = 100, w_device_id = ''out1''\<rparr>)
     (device_query ''out1'' (Some 1) None) = Inl TypeError
   \<and> getMIDIValue
     (setMIDIValue initial_store
        \<lparr>w_channel = 0, w_cc = 64, w_value = 100, w_device_id = ''out1''\<rparr>)
     (channel_query (Some 0) (Some 64))
     = Inr (StoreObject
        (setMIDIValue initial_store
           \<lparr>w_channel = 0, w_cc = 64, w_value = 100, w_device_id = ''out1''\<rparr>))"
  by (simp add: getMIDIValue_def device_query_def channel_query_def array_spread_def truthy_def
      split: option.splits)

lemma get_unwritten_channel:
  "ch \<noteq> 0 \<Longrightarrow> byChannel s ch = None \<Longrightarrow>
   getMIDIValue s (channel_query (Some ch) None) = Inr Undefined"
  by (simp add: getMIDIValue_def channel_query_def truthy_def prop_get_def)

lemma get_unwritten_cc:
  "ch \<noteq> 0 \<Longrightarrow> cc \<noteq> 0 \<Longrightarrow> byChannel s ch = Some m \<Longrightarrow> m cc = None \<Longrightarrow>
   getMIDIValue s (channel_query (Some ch) (Some cc)) = Inr Undefined"
  by (simp add: getMIDIValue_def channel_query_def truthy_def prop_get_def)

lemma get_unwritten_channel_cc:
  "ch \<noteq> 0 \<Longrightarrow> cc \<noteq> 0 \<Longrightarrow> byChannel s ch = None \<Longrightarrow>
   getMIDIValue s (channel_query (Some ch) (Some cc)) = Inl TypeError"
  by (simp add: getMIDIValue_def channel_query_def truthy_def prop_get_def)

text \<open>
  C6. A query for a device id, a channel or a (channel, cc) pair that was never written
  returns an empty or undefined result and raises nothing. The code returns
  \<^verbatim>\<open>undefined\<close> for a channel never written (\<open>get_unwritten_channel\<close>) and for a
  controller never written on a written channel (\<open>get_unwritten_cc\<close>). On the empty
  store, \<^verbatim>\<open>get({channel: 1, cc: 1})\<close> reads a property of \<^verbatim>\<open>undefined\<close> and
  \<^verbatim>\<open>get({device: {id: "out1"}})\<close> spreads \<^verbatim>\<open>undefined\<close>: both raise a TypeError.
\<close>

theorem get_never_written_raises:
  "getMIDIValue initial_store (channel_query (Some 1) (Some 1)) = Inl TypeError
   \<and> getMIDIValue initial_store (device_query ''out1'' None None) = Inl TypeError"
  by (simp add: getMIDIValue_def channel_query_def device_query_def array_spread_def truthy_def
      prop_get_def initial_store_def)

text \<open>
  C10. \<^verbatim>\<open>get\<close> tests its selectors by truthiness, so a selector equal to 0 counts as
  absent: \<^verbatim>\<open>get({channel: 0})\<close> with no device returns the whole store;
  \<^verbatim>\<open>get({channel: ch, cc: 0})\<close> returns what \<^verbatim>\<open>get({channel: ch})\<close> returns, the whole map of
  channel \<open>ch\<close> (the whole store when \<open>ch\<close> is 0 too), not the value of controller 0; and
  in a device query the filter callback accepts every record when the channel or cc
  selector is 0, so such a query does what the query without that selector does.
\<close>

theorem get_zero_selectors:
  "getMIDIValue s (channel_query (Some 0) cc) = Inr (StoreObject s)
   \<and> getMIDIValue s (channel_query (Some ch) (Some 0)) = getMIDIValue s (channel_query (Some ch) None)
   \<and> getMIDIValue s (channel_query (Some ch) (Some 0))
       = (if ch = 0 then Inr (StoreObject s)
          else Inr (case byChannel s ch of None \<Rightarrow> Undefined | Some m \<Rightarrow> ChannelObject m))
   \<and> record_filter (Some 0) cc r = record_filter None cc r
   \<and> record_filter ch' (Some 0) r = record_filter ch' None r
   \<and> record_filter (Some 0) (Some 0) r
   \<and> getMIDIValue s (device_query dev (Some 0) cc) = getMIDIValue s (device_query dev None cc)
   \<and> getMIDIValue s (device_query dev ch' (Some 0)) = getMIDIValue s (device_query dev ch' None)"
  by (simp add: getMIDIValue_def channel_query_def device_query_def truthy_def prop_get_def
      record_filter_def array_spread_def split: option.splits)

subsection \<open>Subscribers\<close>

lemma store_step_no_events: "snd (store_step op sd) = []"
  by (cases op) simp_all

lemma store_run_no_events: "snd (store_run ops sd) = []"
  by (induction ops arbitrary: sd) (simp_all add: case_prod_beta store_step_no_events)

lemma wrapped_handler_calls: "handle_midimessage (Some (Wrapped cb)) = [Call cb]"
  by (simp add: handle_midimessage_def)

text \<open>
  C9. \<^verbatim>\<open>subscribe(callback)\<close> adds the callback to the subscriber set and returns a
  function; calling that function removes the callback from the set and leaves the
  other subscribers. \<^verbatim>\<open>set\<close> leaves the subscriber set as it is and calls nothing, and
  no sequence of store operations ever calls a callback.
\<close>

theorem subscribe_registers_never_called:
  "cb \<in> set (subscribers (snd (subscribe cb sd)))
   \<and> set (subscribers (snd (subscribe cb sd))) = insert cb (set (subscribers sd))
   \<and> set (subscribers (snd (unsubscribe (fst (subscribe cb sd)) (snd (subscribe cb sd)))))
       = set (subscribers sd) - {cb}
   \<and> cb \<notin> set (subscribers (snd (unsubscribe (fst (subscribe cb sd)) (snd (subscribe cb sd)))))
   \<and> subscribers (fst (store_step (SetValue v) sd)) = subscribers sd
   \<and> snd (store_step (SetValue v) sd) = []
   \<and> (\<forall>c. Call c \<notin> set (snd (store_run ops sd)))"
  by (auto simp add: subscribe_def unsubscribe_def Set_add_def Set_delete_def store_run_no_events)

section \<open>Device registries: properties\<close>

lemma foldl_Set_add_set: "set (foldl Set_add acc xs) = set acc \<union> set xs"
  by (induction xs arbitrary: acc) (auto simp: Set_add_def)

lemma foldl_Set_add_distinct: "distinct acc \<Longrightarrow> distinct (foldl Set_add acc xs)"
  by (induction xs arbitrary: acc) (auto simp: Set_add_def)

lemma foldl_Set_add_id: "distinct (acc @ xs) \<Longrightarrow> foldl Set_add acc xs = acc @ xs"
  by (induction xs arbitrary: acc) (auto simp: Set_add_def)

lemma new_Set_set: "set (new_Set xs) = set xs"
  by (simp add: new_Set_def foldl_Set_add_set)

lemma new_Set_distinct: "distinct (new_Set xs)"
  by (simp add: new_Set_def foldl_Set_add_distinct)

lemma new_Set_snoc: "new_Set (xs @ [x]) = Set_add (new_Set xs) x"
  by (simp add: new_Set_def)

lemma new_Set_id: "distinct xs \<Longrightarrow> new_Set xs = xs"
  using foldl_Set_add_id [of "[]" xs] by (simp add: new_Set_def)

lemma dispatch_add: "dispatch ids state (add_action h) = Set_add (new_Set state) h"
  by (simp add: dispatch_def reducer_def add_action_def new_Set_snoc)

lemma dispatch_add_distinct: "distinct (dispatch ids state (add_action h))"
  by (simp add: dispatch_add Set_add_def new_Set_distinct new_Set_set)

lemma dispatch_add_set: "set (dispatch ids state (add_action h)) = insert h (set state)"
  by (auto simp add: dispatch_add Set_add_def new_Set_set)

lemma distinct_count_one: "distinct xs \<Longrightarrow> x \<in> set xs \<Longrightarrow> count_list xs x = 1"
  by (induction xs) auto

text \<open>
  C7 (amended). The registry is a set of handle objects, compared by identity. For every
  registry state, after \<^verbatim>\<open>add\<close> with a handle and then \<^verbatim>\<open>add\<close> with a second handle the
  registry has no entry twice and holds each of the two handles exactly once; when the
  two are the same object the second \<^verbatim>\<open>add\<close> changes nothing, so there is one entry for
  it. The ids of the handles play no part.
\<close>

theorem reducer_add_twice:
  "reducer ids state (add_action h1) = Inr (dispatch ids state (add_action h1))
   \<and> distinct (dispatch ids (dispatch ids state (add_action h1)) (add_action h2))
   \<and> count_list (dispatch ids (dispatch ids state (add_action h1)) (add_action h2)) h1 = 1
   \<and> count_list (dispatch ids (dispatch ids state (add_action h1)) (add_action h2)) h2 = 1
   \<and> dispatch ids (dispatch ids state (add_action h1)) (add_action h1)
       = dispatch ids state (add_action h1)"
proof -
  let ?s1 = "dispatch ids state (add_action h1)"
  let ?s2 = "dispatch ids ?s1 (add_action h2)"
  have r: "reducer ids state (add_action h1) = Inr ?s1"
    by (simp add: dispatch_def reducer_def add_action_def)
  have d1: "distinct ?s1" and m1: "h1 \<in> set ?s1"
    by (simp_all add: dispatch_add_distinct dispatch_add_set)
  have d2: "distinct ?s2" and m2: "h1 \<in> set ?s2" "h2 \<in> set ?s2"
    by (simp_all add: dispatch_add_distinct dispatch_add_set)
  have idem: "dispatch ids ?s1 (add_action h1) = ?s1"
    using d1 m1 by (simp add: dispatch_add [of ids ?s1] new_Set_id Set_add_def)
  show ?thesis
    using r d2 m2 idem by (simp add: distinct_count_one)
qed

text \<open>
  C7 as stated fails: two distinct handles with the same id are both kept, so the
  registry has two entries for that id.
\<close>

theorem reducer_add_same_id_counterexample:
  "(0::ref) \<noteq> 1
   \<and> (\<lambda>r::ref. ''in1'') 0 = (\<lambda>r::ref. ''in1'') 1
   \<and> dispatch (\<lambda>r. ''in1'') (dispatch (\<lambda>r. ''in1'') [] (add_action 0)) (add_action 1) = [0, 1]
   \<and> length (entries_with_id (\<lambda>r. ''in1'')
        (dispatch (\<lambda>r. ''in1'') (dispatch (\<lambda>r. ''in1'') [] (add_action 0)) (add_action 1)) ''in1'')
       = 2"
  by (simp add: dispatch_def reducer_def add_action_def new_Set_def Set_add_def
      entries_with_id_def)

section \<open>Opening inputs: properties\<close>

lemma addMIDIInput_v1_returns_true:
  "fst (addMIDIInput_v1 True heap connected r callback) = Inr True"
  "r \<in> set (snd (snd (addMIDIInput_v1 True heap connected r callback)))"
  by (simp_all add: addMIDIInput_v1_def dispatch_add_set case_prod_beta)

text \<open>
  C8 (amended). In the variant of lines 797-806, which awaits \<^verbatim>\<open>openMIDIInput\<close>: for every
  input handle whose \<^verbatim>\<open>open\<close> is missing or fails, unless the handle's connection already
  reads \<^verbatim>\<open>open\<close> and no callback is given (then \<^verbatim>\<open>open\<close> is not called), \<^verbatim>\<open>addMIDIInput\<close>
  resolves to \<^verbatim>\<open>false\<close>, raises nothing and leaves the registry of connected inputs as
  it was.
\<close>

theorem addMIDIInput_v2_open_fails:
  assumes "in_open (heap r) \<noteq> Resolves"
    and "\<not> (in_connection (heap r) = ''open'' \<and> callback = None)"
  shows "fst (addMIDIInput_v2 access heap connected r callback) = Resolved False
         \<and> snd (snd (addMIDIInput_v2 access heap connected r callback)) = connected"
proof (cases "in_open (heap r)")
  case Missing
  with assms(2) show ?thesis
    by (auto simp add: addMIDIInput_v2_def openMIDIInput_def Let_def)
next
  case Resolves
  with assms(1) show ?thesis by simp
next
  case Rejects
  with assms(2) show ?thesis
    by (auto simp add: addMIDIInput_v2_def openMIDIInput_def Let_def)
qed

theorem addMIDIInput_v2_open_fails_witness:
  "in_open ((\<lambda>r. closed_input_without_open) (0::ref)) = Missing
   \<and> in_connection ((\<lambda>r. closed_input_without_open) (0::ref)) = ''closed''
   \<and> fst (addMIDIInput_v2 True (\<lambda>r. closed_input_without_open) [] 0 None) = Resolved False
   \<and> snd (snd (addMIDIInput_v2 True (\<lambda>r. closed_input_without_open) [] 0 None)) = []"
  using addMIDIInput_v2_open_fails [of "\<lambda>r. closed_input_without_open" 0 None True "[]"]
  by (simp add: closed_input_without_open_def)

text \<open>
  C8 as stated fails on a handle with no \<^verbatim>\<open>open\<close> method whose connection reads
  \<^verbatim>\<open>open\<close>, added with no callback: \<^verbatim>\<open>open\<close> is never called, the result is \<^verbatim>\<open>true\<close> and
  the handle is in the registry.
\<close>

theorem addMIDIInput_v2_already_open_counterexample:
  "in_open ((\<lambda>r. open_input_without_open) (0::ref)) = Missing
   \<and> fst (addMIDIInput_v2 True (\<lambda>r. open_input_without_open) [] 0 None) = Resolved True
   \<and> snd (snd (addMIDIInput_v2 True (\<lambda>r. open_input_without_open) [] 0 None)) = [0]"
  by (simp add: addMIDIInput_v2_def openMIDIInput_def open_input_without_open_def dispatch_def
      reducer_def add_action_def new_Set_def Set_add_def)

end
